theory Spec2Isabelle
  imports Complex_Main
begin

section \<open>Numbers, outcomes and formatting\<close>

text \<open>
  The analytics functions of the repository compute on JavaScript numbers and on
  \<^verbatim>\<open>BigNumber\<close> decimals. Both are modelled as \<^typ>\<open>real\<close>: arithmetic is exact, so
  binary rounding of doubles and the decimal rounding of \<^verbatim>\<open>BigNumber\<close> quotients are
  not part of the model. What JavaScript does outside the finite numbers is written
  out: a division by zero or a square root of a negative number gives \<^verbatim>\<open>Infinity\<close>
  or \<^verbatim>\<open>NaN\<close> there, and the function goes on computing with it. The model says
  \<open>NotFinite\<close> for a call in which this happens and does not describe what the call
  returns then. \<open>Throws\<close> is an exception leaving the function.
\<close>

datatype error = ValidationError | CalculationError

datatype 'a outcome = Returns 'a | NotFinite | Throws error

text \<open>
  \<^verbatim>\<open>x.toFixed(d)\<close> prints \<open>x\<close> with \<open>d\<close> decimals, the nearest such decimal, the
  one further from zero on a tie. The model keeps the number that the string denotes.
\<close>

definition toFixed :: "nat \<Rightarrow> real \<Rightarrow> real" where
  "toFixed d x = sgn x * of_int \<lfloor>\<bar>x\<bar> * 10 ^ d + 1 / 2\<rfloor> / 10 ^ d"

datatype level = Low | Medium | High

section \<open>Maximum drawdown\<close>

text \<open>
  \<^verbatim>\<open>BaseYieldCalculator.prototype.calculateMaxDrawdown\<close>. The early return carries
  the number \<open>0\<close> and no peak or trough; the normal return prints the drawdown as a
  percentage with two decimals. \<open>recovery\<close> is the source's string.
\<close>

record drawdown_result =
  maxDrawdown :: real
  drawdownPeriod :: int
  peakValue :: "real option"
  troughValue :: "real option"
  recovery :: string

text \<open>
  The loop \<^verbatim>\<open>for (let i = 1; i < priceHistory.length; i++)\<close> over the remaining
  prices. The state is \<open>(peak, maxDrawdown, drawdownStart, drawdownEnd,
  currentDrawdownStart)\<close>. With \<open>peak = 0\<close> the quotient \<open>(peak - p) / peak\<close> is
  \<^verbatim>\<open>NaN\<close> for \<open>p = 0\<close>, which no comparison accepts, and \<^verbatim>\<open>Infinity\<close> for \<open>p < 0\<close>,
  which becomes the maximum: the scan is no longer finite (\<open>None\<close>).
\<close>

fun drawdownScan ::
  "real list \<Rightarrow> nat \<Rightarrow> real \<times> real \<times> nat \<times> nat \<times> nat \<Rightarrow> (real \<times> real \<times> nat \<times> nat \<times> nat) option"
where
  "drawdownScan [] i st = Some st"
| "drawdownScan (p # ps) i (peak, maxDD, ddStart, ddEnd, curStart) =
     (if p > peak then drawdownScan ps (Suc i) (p, maxDD, ddStart, ddEnd, i)
      else if peak = 0 then
        (if p = 0 then drawdownScan ps (Suc i) (peak, maxDD, ddStart, ddEnd, curStart)
         else None)
      else
        (let drawdown = (peak - p) / peak in
         if drawdown > maxDD
         then drawdownScan ps (Suc i) (peak, drawdown, curStart, i, curStart)
         else drawdownScan ps (Suc i) (peak, maxDD, ddStart, ddEnd, curStart)))"

definition calculateMaxDrawdown :: "real list \<Rightarrow> drawdown_result outcome" where
  "calculateMaxDrawdown priceHistory =
     (if length priceHistory < 2
      then Returns \<lparr>maxDrawdown = 0, drawdownPeriod = 0, peakValue = None,
                     troughValue = None, recovery = ''N/A''\<rparr>
      else
        (case drawdownScan (tl priceHistory) 1 (hd priceHistory, 0, 0, 0, 0) of
           None \<Rightarrow> NotFinite
         | Some (peak, maxDD, ddStart, ddEnd, curStart) \<Rightarrow>
             Returns \<lparr>maxDrawdown = toFixed 2 (maxDD * 100),
                      drawdownPeriod = int ddEnd - int ddStart,
                      peakValue = Some (toFixed 2 peak),
                      troughValue =
                        (if ddEnd < length priceHistory
                         then Some (toFixed 2 (priceHistory ! ddEnd)) else None),
                      recovery =
                        (if maxDD > 0 then ''Monitoring required''
                         else ''No significant drawdown'')\<rparr>))"

section \<open>APY and the optimal compounding frequency\<close>

text \<open>
  \<^verbatim>\<open>YieldCalculator.calculateAPY\<close>: \<^verbatim>\<open>apr / 100 / compoundFrequency\<close>, plus one, to the
  power \<^verbatim>\<open>compoundFrequency\<close>, minus one, times 100. The frequency is a number of
  compounding periods, a natural number here. The source has no check on \<open>apr\<close> and
  no \<^verbatim>\<open>throw\<close>; with frequency 0 the quotient is not finite.
\<close>

definition calculateAPY :: "real \<Rightarrow> nat \<Rightarrow> real outcome" where
  "calculateAPY apr compoundFrequency =
     (if compoundFrequency = 0 then NotFinite
      else
        (let aprDecimal = apr / 100;
             compoundRate = aprDecimal / real compoundFrequency;
             apy = (compoundRate + 1) ^ compoundFrequency - 1
         in Returns (apy * 100)))"

definition getCompoundingStrategy :: "nat \<Rightarrow> string" where
  "getCompoundingStrategy frequency =
     (if frequency = 1 then ''Annual compounding - Low gas, lower yield''
      else if frequency = 4 then ''Quarterly compounding - Balanced approach''
      else if frequency = 12 then ''Monthly compounding - Good for medium amounts''
      else if frequency = 52 then ''Weekly compounding - Higher gas, better yield''
      else if frequency = 365 then ''Daily compounding - Highest gas, maximum yield''
      else ''Custom frequency'')"

record compounding_result =
  optimalFrequency :: nat
  maxNetYield :: real
  recommendedStrategy :: string

definition frequencies :: "nat list" where
  "frequencies = [1, 4, 12, 52, 365]"

text \<open>
  The body of \<^verbatim>\<open>frequencies.forEach\<close> in \<^verbatim>\<open>calculateOptimalCompounding\<close>, on the
  pair \<open>(optimalFreq, maxNetYield)\<close>.
\<close>

definition compoundingStep ::
  "real \<Rightarrow> real \<Rightarrow> real \<Rightarrow> nat \<Rightarrow> (nat \<times> real) outcome \<Rightarrow> (nat \<times> real) outcome"
where
  "compoundingStep apr gasCost principalAmount freq acc =
     (case acc of
        Returns (optimalFreq, maxNet) \<Rightarrow>
          (case calculateAPY apr freq of
             Returns apy \<Rightarrow>
               (let grossYield = principalAmount * (apy / 100);
                    totalGasCost = gasCost * real freq;
                    netYield = grossYield - totalGasCost
                in if netYield > maxNet then Returns (freq, netYield)
                   else Returns (optimalFreq, maxNet))
           | NotFinite \<Rightarrow> NotFinite
           | Throws e \<Rightarrow> Throws e)
      | NotFinite \<Rightarrow> NotFinite
      | Throws e \<Rightarrow> Throws e)"

definition calculateOptimalCompounding ::
  "real \<Rightarrow> real \<Rightarrow> real \<Rightarrow> compounding_result outcome"
where
  "calculateOptimalCompounding apr gasCost principalAmount =
     (case fold (compoundingStep apr gasCost principalAmount) frequencies (Returns (1, 0)) of
        Returns (optimalFreq, maxNet) \<Rightarrow>
          Returns \<lparr>optimalFrequency = optimalFreq, maxNetYield = maxNet,
                   recommendedStrategy = getCompoundingStrategy optimalFreq\<rparr>
      | NotFinite \<Rightarrow> NotFinite
      | Throws e \<Rightarrow> Throws e)"

text \<open>
  The net yield of one candidate frequency as the specification writes it:
  \<open>principal * apyFromApr(apr, f) / 100 - gasCostPerCompound * f\<close>.
\<close>

definition specNetYield :: "real \<Rightarrow> real \<Rightarrow> real \<Rightarrow> nat \<Rightarrow> real" where
  "specNetYield apr gasCost principalAmount f =
     principalAmount * (((1 + apr / 100 / real f) ^ f - 1) * 100) / 100 - gasCost * real f"

text \<open>The same loop without the outcome wrapper, for the proofs.\<close>

definition keepBest :: "(nat \<Rightarrow> real) \<Rightarrow> nat \<Rightarrow> nat \<times> real \<Rightarrow> nat \<times> real" where
  "keepBest net f acc = (if net f > snd acc then (f, net f) else acc)"

section \<open>Value at Risk and the portfolio variance\<close>

text \<open>
  A position of a portfolio. \<^verbatim>\<open>volatility\<close> may be missing. \<open>orDefault v d\<close> is the
  source's \<^verbatim>\<open>v || d\<close> on numbers: the default stands in for a missing value and
  for \<open>0\<close> alike. \<open>orElse\<close> is the same choice between two values that may be
  missing.
\<close>

record position =
  asset :: string
  amount :: real
  price :: real
  volatility :: "real option"

record portfolio =
  positions :: "position list option"

definition orDefault :: "real option \<Rightarrow> real \<Rightarrow> real" where
  "orDefault v d = (case v of None \<Rightarrow> d | Some x \<Rightarrow> if x = 0 then d else x)"

definition orElse :: "real option \<Rightarrow> real option \<Rightarrow> real option" where
  "orElse v w = (case v of None \<Rightarrow> w | Some x \<Rightarrow> if x = 0 then w else Some x)"

text \<open>
  \<^verbatim>\<open>BaseYieldCalculator.prototype.calculateVaR\<close>. The body of \<^verbatim>\<open>positions.forEach\<close>
  works on \<open>(totalValue, portfolioVolatility)\<close>; it divides by the running total,
  which may be \<open>0\<close> (\<open>None\<close>: not finite).
\<close>

definition varStep :: "position \<Rightarrow> (real \<times> real) option \<Rightarrow> (real \<times> real) option" where
  "varStep p acc =
     (case acc of
        None \<Rightarrow> None
      | Some (totalVal, vol) \<Rightarrow>
          (let positionValue = amount p * price p;
               totalVal' = totalVal + positionValue
           in if totalVal' = 0 then None
              else Some (totalVal', vol + (orDefault (volatility p) (3 / 10)) ^ 2
                                         * (positionValue / totalVal') ^ 2)))"

record var_result =
  totalValue :: real
  portfolioVolatility :: real
  dailyVaR :: real
  periodVaR :: real
  riskLevel :: level

text \<open>
  The arguments \<open>confidenceLevel\<close> and \<open>timeHorizon\<close> are given (the source defaults
  them to 0.95 and 1); the two fields of the result that print them back are left
  out. With an empty list of positions \<^verbatim>\<open>dailyVaR / totalValue\<close> is \<^verbatim>\<open>0 / 0\<close>, that is
  \<^verbatim>\<open>NaN\<close>, both comparisons are false and the risk level is \<^verbatim>\<open>'Low'\<close>. The source
  has no check of its arguments and no \<^verbatim>\<open>throw\<close>.
\<close>

definition calculateVaR :: "portfolio \<Rightarrow> real \<Rightarrow> real \<Rightarrow> var_result outcome" where
  "calculateVaR pf confidence horizon =
     (let ps = (case positions pf of None \<Rightarrow> [] | Some l \<Rightarrow> l) in
      case fold varStep ps (Some (0, 0)) of
        None \<Rightarrow> NotFinite
      | Some (totalVal, vol2) \<Rightarrow>
          if vol2 < 0 \<or> horizon < 0 then NotFinite
          else
            (let vol = sqrt vol2;
                 zScore = (if confidence = 95 / 100 then 1645 / 1000
                           else if confidence = 99 / 100 then 2326 / 1000 else 196 / 100);
                 daily = totalVal * vol * zScore;
                 period = daily * sqrt horizon
             in Returns \<lparr>totalValue = toFixed 2 totalVal,
                         portfolioVolatility = toFixed 2 (vol * 100),
                         dailyVaR = toFixed 2 daily,
                         periodVaR = toFixed 2 period,
                         riskLevel =
                           (if totalVal = 0 then Low
                            else if daily / totalVal > 5 / 100 then High
                            else if daily / totalVal > 2 / 100 then Medium
                            else Low)\<rparr>))"

text \<open>
  \<^verbatim>\<open>BaseRiskAssessment.getAssetCorrelation\<close>: the table of known pairs, looked up
  under \<^verbatim>\<open>asset1-asset2\<close>, then under \<^verbatim>\<open>asset2-asset1\<close>, then 0.3.
\<close>

definition correlations :: "(string \<times> real) list" where
  "correlations =
     [(''ETH-BTC'', 7 / 10), (''USDC-USDT'', 95 / 100), (''ETH-USDC'', 1 / 10),
      (''BTC-USDC'', 5 / 100)]"

definition getAssetCorrelation :: "string \<Rightarrow> string \<Rightarrow> real" where
  "getAssetCorrelation asset1 asset2 =
     (let key = asset1 @ ''-'' @ asset2;
          reverseKey = asset2 @ ''-'' @ asset1
      in orDefault (orElse (map_of correlations key) (map_of correlations reverseKey))
           (3 / 10))"

text \<open>
  The variable \<^verbatim>\<open>portfolioVariance\<close> of \<^verbatim>\<open>BaseRiskAssessment.calculatePortfolioVaR\<close>
  when both loops are done. The first loop (\<open>varianceStep\<close>) adds up the portfolio
  value and, in the same pass, squares \<open>weight * volatility\<close> with the weight taken
  against the value added up so far. The nested loop over \<open>i < j\<close> (\<open>outerLoop\<close>,
  \<open>innerLoop\<close>) divides by the finished total.
\<close>

definition varianceStep :: "position \<Rightarrow> (real \<times> real) option \<Rightarrow> (real \<times> real) option" where
  "varianceStep p acc =
     (case acc of
        None \<Rightarrow> None
      | Some (portfolioValue, variance) \<Rightarrow>
          (let positionValue = amount p * price p;
               portfolioValue' = portfolioValue + positionValue
           in if portfolioValue' = 0 then None
              else
                (let weight = positionValue / portfolioValue';
                     vol = orDefault (volatility p) (3 / 10)
                 in Some (portfolioValue', variance + (weight * vol) ^ 2))))"

fun innerLoop :: "real \<Rightarrow> position \<Rightarrow> position list \<Rightarrow> real \<Rightarrow> real" where
  "innerLoop portfolioValue posI [] variance = variance"
| "innerLoop portfolioValue posI (posJ # rest) variance =
     (let weight_i = (amount posI * price posI) / portfolioValue;
          weight_j = (amount posJ * price posJ) / portfolioValue;
          vol_i = orDefault (volatility posI) (3 / 10);
          vol_j = orDefault (volatility posJ) (3 / 10);
          correlation = getAssetCorrelation (asset posI) (asset posJ)
      in innerLoop portfolioValue posI rest
           (variance + 2 * weight_i * weight_j * vol_i * vol_j * correlation))"

fun outerLoop :: "real \<Rightarrow> position list \<Rightarrow> real \<Rightarrow> real" where
  "outerLoop portfolioValue [] variance = variance"
| "outerLoop portfolioValue (posI # rest) variance =
     outerLoop portfolioValue rest (innerLoop portfolioValue posI rest variance)"

definition portfolioVariance :: "position list \<Rightarrow> real option" where
  "portfolioVariance ps =
     (case fold varianceStep ps (Some (0, 0)) of
        None \<Rightarrow> None
      | Some (portfolioValue, variance) \<Rightarrow> Some (outerLoop portfolioValue ps variance))"

text \<open>
  The variance as the specification writes it: every weight is the position's value
  over the total value of the portfolio, the variance is
  \<open>\<Sum> w\<^sub>i\<^sup>2 \<sigma>\<^sub>i\<^sup>2 + 2 \<Sum>\<^bsub>i<j\<^esub> w\<^sub>i w\<^sub>j \<sigma>\<^sub>i \<sigma>\<^sub>j \<rho>\<^bsub>ij\<^esub>\<close>, a missing volatility is 0.3 and an
  unknown pair has correlation 0.3.
\<close>

fun specPairs :: "'a list \<Rightarrow> ('a \<times> 'a) list" where
  "specPairs [] = []"
| "specPairs (x # xs) = map (Pair x) xs @ specPairs xs"

definition specVariance :: "position list \<Rightarrow> real" where
  "specVariance ps =
     (let totalVal = sum_list (map (\<lambda>p. amount p * price p) ps);
          w = (\<lambda>p. amount p * price p / totalVal);
          sigma = (\<lambda>p. case volatility p of None \<Rightarrow> 3 / 10 | Some v \<Rightarrow> v);
          rho = (\<lambda>p q. getAssetCorrelation (asset p) (asset q))
      in sum_list (map (\<lambda>p. (w p) ^ 2 * (sigma p) ^ 2) ps)
         + 2 * sum_list (map (\<lambda>(p, q). w p * w q * sigma p * sigma q * rho p q) (specPairs ps)))"

section \<open>Impermanent loss\<close>




section \<open>Impermanent loss over price scenarios\<close>

record poolData =
  token0Amount :: real
  token1Amount :: real
  token0Price :: real
  token1Price :: real

record scenario =
  scenarioName :: string
  token0Change :: real
  token1Change :: real

definition defaultScenarios :: "scenario list" where
  "defaultScenarios =
     [\<lparr>scenarioName = ''Conservative'', token0Change = 1 / 10, token1Change = - (5 / 100)\<rparr>,
      \<lparr>scenarioName = ''Moderate'', token0Change = 25 / 100, token1Change = - (15 / 100)\<rparr>,
      \<lparr>scenarioName = ''Aggressive'', token0Change = 5 / 10, token1Change = - (3 / 10)\<rparr>,
      \<lparr>scenarioName = ''Extreme'', token0Change = 1, token1Change = - (5 / 10)\<rparr>]"


definition poolComposition :: "poolData \<Rightarrow> scenario \<Rightarrow> (real \<times> real) outcome" where
  "poolComposition pd sc =
     (let newToken0Price = token0Price pd * (1 + token0Change sc);
          newToken1Price = token1Price pd * (1 + token1Change sc)
      in if newToken1Price = 0 then NotFinite
         else
           (let newRatio = newToken0Price / newToken1Price;
                k = token0Amount pd * token1Amount pd
            in if k * newRatio < 0 then NotFinite
               else
                 (let newToken0Amount = sqrt (k * newRatio) in
                  if newToken0Amount = 0 then NotFinite
                  else Returns (newToken0Amount, k / newToken0Amount))))"

record scenario_result =
  scenarioLabel :: string
  ilPercent :: real
  poolValue :: real
  holdValue :: real
  difference :: real
  newPrice0 :: real
  newPrice1 :: real
  severity :: level

text \<open>
  The whole callback. \<^verbatim>\<open>initialRatio\<close> is computed once before the map; it is not
  finite for a token 1 price of \<open>0\<close>, and the quotient by it is not finite when it is
  \<open>0\<close>. The fields of the result are the source's \<^verbatim>\<open>scenario\<close>,
  \<^verbatim>\<open>impermanentLoss\<close>, \<^verbatim>\<open>poolValue\<close>, \<^verbatim>\<open>holdValue\<close>, \<^verbatim>\<open>difference\<close>,
  \<^verbatim>\<open>token0Price\<close>, \<^verbatim>\<open>token1Price\<close> and \<^verbatim>\<open>severity\<close>.
\<close>

definition scenarioResult :: "poolData \<Rightarrow> scenario \<Rightarrow> scenario_result outcome" where
  "scenarioResult pd sc =
     (if token1Price pd = 0 \<or> token0Price pd / token1Price pd = 0 then NotFinite
      else
        (let initialRatio = token0Price pd / token1Price pd;
             newToken0Price = token0Price pd * (1 + token0Change sc);
             newToken1Price = token1Price pd * (1 + token1Change sc)
         in case poolComposition pd sc of
              Returns (newToken0Amount, newToken1Amount) \<Rightarrow>
                (let newRatio = newToken0Price / newToken1Price;
                     priceRatioChange = newRatio / initialRatio
                 in if priceRatioChange < 0 then NotFinite
                    else
                      (let il = (2 * sqrt priceRatioChange) / (1 + priceRatioChange) - 1;
                           poolVal = newToken0Amount * newToken0Price
                                     + newToken1Amount * newToken1Price;
                           holdVal = token0Amount pd * newToken0Price
                                     + token1Amount pd * newToken1Price
                       in Returns \<lparr>scenarioLabel = scenarioName sc,
                                   ilPercent = toFixed 2 (\<bar>il\<bar> * 100),
                                   poolValue = toFixed 2 poolVal,
                                   holdValue = toFixed 2 holdVal,
                                   difference = toFixed 2 (poolVal - holdVal),
                                   newPrice0 = toFixed 4 newToken0Price,
                                   newPrice1 = toFixed 4 newToken1Price,
                                   severity =
                                     (if \<bar>il\<bar> > 2 / 10 then High
                                      else if \<bar>il\<bar> > 1 / 10 then Medium else Low)\<rparr>))
            | NotFinite \<Rightarrow> NotFinite
            | Throws e \<Rightarrow> Throws e))"

text \<open>
  \<^verbatim>\<open>calculateAdvancedImpermanentLoss\<close>: the initial value and one result per
  scenario, of the given scenarios or of the four default ones when none is given.
  The risk assessment and the list of mitigations are left out.
\<close>

definition calculateAdvancedImpermanentLoss ::
  "poolData \<Rightarrow> scenario list \<Rightarrow> real \<times> scenario_result outcome list"
where
  "calculateAdvancedImpermanentLoss pd priceScenarios =
     (let initialValue = token0Amount pd * token0Price pd + token1Amount pd * token1Price pd;
          scenarios = (if length priceScenarios > 0 then priceScenarios else defaultScenarios)
      in (toFixed 2 initialValue, map (scenarioResult pd) scenarios))"

section \<open>The allocation optimizer\<close>

text \<open>
  \<^verbatim>\<open>BaseYieldCalculator.prototype.optimizeYieldStrategy\<close> receives an array of strategy
  objects and writes two fields into those that pass its filter. The objects are
  shared with the caller, so they live in a store, a function from addresses to
  objects, and the array is a list of addresses (an object may occur twice). The two
  fields that the optimizer adds are absent (\<open>None\<close>) in a fresh strategy.
\<close>

record strategy =
  name :: string
  apy :: real
  risk :: real
  liquidity :: real
  riskAdjustedReturn :: "real option"
  score :: "real option"

type_synonym store = "nat \<Rightarrow> strategy"

text \<open>
  The constraints object; a field that is missing takes the default of the
  destructuring assignment.
\<close>

record constraints =
  maxRisk :: "real option"
  minYield :: "real option"
  maxAllocationPerStrategy :: "real option"
  totalCapital :: "real option"

definition maxRiskOf :: "constraints \<Rightarrow> real" where
  "maxRiskOf cs = (case maxRisk cs of None \<Rightarrow> 3 / 10 | Some v \<Rightarrow> v)"

definition minYieldOf :: "constraints \<Rightarrow> real" where
  "minYieldOf cs = (case minYield cs of None \<Rightarrow> 5 | Some v \<Rightarrow> v)"

definition maxAllocationPerStrategyOf :: "constraints \<Rightarrow> real" where
  "maxAllocationPerStrategyOf cs =
     (case maxAllocationPerStrategy cs of None \<Rightarrow> 4 / 10 | Some v \<Rightarrow> v)"

definition totalCapitalOf :: "constraints \<Rightarrow> real" where
  "totalCapitalOf cs = (case totalCapital cs of None \<Rightarrow> 100000 | Some v \<Rightarrow> v)"

text \<open>The predicate of \<^verbatim>\<open>strategies.filter\<close>.\<close>

definition meetsConstraints :: "constraints \<Rightarrow> strategy \<Rightarrow> bool" where
  "meetsConstraints cs s = (apy s \<ge> minYieldOf cs \<and> risk s \<le> maxRiskOf cs)"

text \<open>
  The body of \<^verbatim>\<open>validStrategies.forEach\<close>: the object at the address gets
  \<^verbatim>\<open>riskAdjustedReturn = apy / (risk || 0.1)\<close> and
  \<^verbatim>\<open>score = riskAdjustedReturn * (1 + liquidity / 100)\<close>.
\<close>

definition scored :: "strategy \<Rightarrow> strategy" where
  "scored s =
     (let rar = apy s / orDefault (Some (risk s)) (1 / 10)
      in s\<lparr>riskAdjustedReturn := Some rar, score := Some (rar * (1 + liquidity s / 100))\<rparr>)"

definition scoreStep :: "nat \<Rightarrow> store \<Rightarrow> store" where
  "scoreStep a h = h(a := scored (h a))"

text \<open>
  \<^verbatim>\<open>validStrategies.sort((a, b) => b.score - a.score)\<close>: by falling score, strategies
  of equal score in their order in the array. The score was written just before.
\<close>

definition readScore :: "store \<Rightarrow> nat \<Rightarrow> real" where
  "readScore h a = (case score (h a) of None \<Rightarrow> 0 | Some v \<Rightarrow> v)"

definition sortByScore :: "store \<Rightarrow> nat list \<Rightarrow> nat list" where
  "sortByScore h as = sort_key (\<lambda>a. - readScore h a) as"

record allocation_entry =
  strategyName :: string
  allocation :: real
  percentage :: real
  expectedReturn :: real
  allocRisk :: real
  allocApy :: real

text \<open>
  The allocation loop \<^verbatim>\<open>for (const strategy of validStrategies)\<close> on
  \<open>(allocations, remainingCapital, totalAllocatedRisk)\<close>; it stops at the first
  strategy that finds no capital left.
\<close>

fun allocate ::
  "store \<Rightarrow> real \<Rightarrow> real \<Rightarrow> nat list \<Rightarrow> allocation_entry list \<times> real \<times> real
   \<Rightarrow> allocation_entry list \<times> real \<times> real"
where
  "allocate h capital maxPer [] st = st"
| "allocate h capital maxPer (a # rest) (allocations, remainingCapital, totalAllocatedRisk) =
     (if remainingCapital \<le> 0 then (allocations, remainingCapital, totalAllocatedRisk)
      else
        (let maxAllocation =
               min (min remainingCapital (capital * maxPer)) (capital * (8 / 10));
             alloc = min maxAllocation (remainingCapital * (3 / 10))
         in if alloc > 1000
            then allocate h capital maxPer rest
                   (allocations @
                      [\<lparr>strategyName = name (h a), allocation = alloc,
                        percentage = toFixed 1 (alloc / capital * 100),
                        expectedReturn = toFixed 2 (alloc * apy (h a) / 100),
                        allocRisk = risk (h a), allocApy = apy (h a)\<rparr>],
                    remainingCapital - alloc,
                    totalAllocatedRisk + (alloc / capital) * risk (h a))
            else allocate h capital maxPer rest
                   (allocations, remainingCapital, totalAllocatedRisk)))"

record portfolio_metrics =
  totalAllocated :: real
  remainingCash :: real
  weightedAPY :: real
  portfolioRisk :: real
  diversificationScore :: string
  metricsRiskLevel :: string

datatype optimizer_result =
  NoValidStrategies
  | Allocated "allocation_entry list" portfolio_metrics

fun allocationsOf :: "optimizer_result \<Rightarrow> allocation_entry list" where
  "allocationsOf NoValidStrategies = []"
| "allocationsOf (Allocated allocations m) = allocations"

text \<open>
  The optimizer: the store it leaves and the object it returns.
  \<open>NoValidStrategies\<close> is the object \<^verbatim>\<open>{ error: 'No strategies meet the specified
  constraints' }\<close>, returned (not thrown) before anything is written. The list of
  recommendations of the normal return is left out.
\<close>

definition optimizeYieldStrategy ::
  "store \<Rightarrow> nat list \<Rightarrow> constraints \<Rightarrow> store \<times> optimizer_result"
where
  "optimizeYieldStrategy h strategies cs =
     (let capital = totalCapitalOf cs;
          validStrategies = filter (\<lambda>a. meetsConstraints cs (h a)) strategies
      in if length validStrategies = 0 then (h, NoValidStrategies)
         else
           (let h' = fold scoreStep validStrategies h;
                sortedStrategies = sortByScore h' validStrategies;
                (allocations, remainingCapital, totalAllocatedRisk) =
                  allocate h' capital (maxAllocationPerStrategyOf cs) sortedStrategies
                    ([], capital, 0);
                allocated = capital - remainingCapital;
                wAPY = fold (\<lambda>e acc. acc + expectedReturn e / allocated * 100) allocations 0
            in (h',
                Allocated allocations
                  \<lparr>totalAllocated = toFixed 2 allocated,
                   remainingCash = toFixed 2 remainingCapital,
                   weightedAPY = toFixed 2 wAPY,
                   portfolioRisk = toFixed 2 (totalAllocatedRisk * 100),
                   diversificationScore =
                     (if length allocations \<ge> 3 then ''Good'' else ''Needs improvement''),
                   metricsRiskLevel =
                     (if totalAllocatedRisk < 15 / 100 then ''Conservative''
                      else if totalAllocatedRisk < 25 / 100 then ''Moderate''
                      else ''Aggressive'')\<rparr>)))"

text \<open>
  A store and constraints to run the optimizer on: the three strategies of the
  repository's test suite at the addresses 0, 1 and 2, and its constraints with the
  minimum yield lowered to 5 so that two strategies pass the filter.
\<close>

definition exampleStore :: store where
  "exampleStore =
     (\<lambda>a. if a = 0 then \<lparr>name = ''Strategy A'', apy = 12, risk = 2 / 10, liquidity = 80,
                           riskAdjustedReturn = None, score = None\<rparr>
          else if a = 1 then \<lparr>name = ''Strategy B'', apy = 18, risk = 4 / 10, liquidity = 60,
                           riskAdjustedReturn = None, score = None\<rparr>
          else \<lparr>name = ''Strategy C'', apy = 8, risk = 1 / 10, liquidity = 95,
                           riskAdjustedReturn = None, score = None\<rparr>)"

definition exampleConstraints :: constraints where
  "exampleConstraints =
     \<lparr>maxRisk = Some (3 / 10), minYield = Some 5,
      maxAllocationPerStrategy = Some (4 / 10), totalCapital = Some 100000\<rparr>"

section \<open>Properties\<close>

lemma toFixed_zero: "toFixed d 0 = 0"
  by (simp add: toFixed_def)

subsection \<open>Maximum drawdown of short and of rising series\<close>

lemma drawdownScan_rising:
  "sorted ps \<Longrightarrow> \<forall>p \<in> set ps. peak \<le> p \<Longrightarrow>
   \<exists>peak' s e c. drawdownScan ps i (peak, 0, ddStart, ddEnd, curStart) = Some (peak', 0, s, e, c)"
proof (induction ps arbitrary: i peak ddStart ddEnd curStart)
  case Nil
  show ?case by simp
next
  case (Cons p ps)
  have sorted_ps: "sorted ps" and above: "\<forall>q \<in> set ps. p \<le> q" and le: "peak \<le> p"
    using Cons.prems by auto
  show ?case
  proof (cases "p > peak")
    case True
    from Cons.IH [OF sorted_ps above, of "Suc i" ddStart ddEnd i] True
    show ?thesis by simp
  next
    case False
    with le have eq: "p = peak" by simp
    from above eq have above': "\<forall>q \<in> set ps. peak \<le> q" by simp
    from Cons.IH [OF sorted_ps above', of "Suc i" ddStart ddEnd curStart] eq
    show ?thesis by auto
  qed
qed

text \<open>
  C10. For every price series with fewer than two prices (the empty one too), and for
  every series that never falls, \<open>calculateMaxDrawdown\<close> returns a result whose
  \<open>maxDrawdown\<close> is \<open>0\<close>.
\<close>

theorem maxDrawdown_short_or_rising:
  assumes "length priceHistory < 2 \<or> sorted priceHistory"
  shows "map_outcome maxDrawdown (calculateMaxDrawdown priceHistory) = Returns 0"
proof (cases "length priceHistory < 2")
  case True
  then show ?thesis by (simp add: calculateMaxDrawdown_def)
next
  case False
  with assms have srt: "sorted priceHistory" by simp
  from False obtain x ps where ph: "priceHistory = x # ps"
    by (cases priceHistory) auto
  from srt ph have "sorted ps" and "\<forall>p \<in> set ps. x \<le> p" by auto
  from drawdownScan_rising [OF this, of 1 0 0 0]
  obtain peak' s e c where "drawdownScan ps 1 (x, 0, 0, 0, 0) = Some (peak', 0, s, e, c)"
    by blast
  with False ph show ?thesis
    by (simp add: calculateMaxDrawdown_def toFixed_zero)
qed

theorem maxDrawdown_short_or_rising_witness:
  "(length [100, 110, 110, 120 :: real] < 2 \<or> sorted [100, 110, 110, 120 :: real])
   \<and> map_outcome maxDrawdown (calculateMaxDrawdown [100, 110, 110, 120]) = Returns 0"
  using maxDrawdown_short_or_rising [of "[100, 110, 110, 120]"] by simp

subsection \<open>The compounding search as a fold\<close>

lemma step_keepBest:
  "f \<noteq> 0 \<Longrightarrow> compoundingStep apr g P f (Returns acc) = Returns (keepBest (specNetYield apr g P) f acc)"
  by (cases acc) (simp add: compoundingStep_def calculateAPY_def keepBest_def specNetYield_def Let_def add.commute)

lemma fold_step_keepBest:
  "0 \<notin> set fs \<Longrightarrow>
   fold (compoundingStep apr g P) fs (Returns acc) = Returns (fold (keepBest (specNetYield apr g P)) fs acc)"
  by (induction fs arbitrary: acc) (auto simp: step_keepBest)

lemma keepBest_pair:
  "keepBest net f (b, m) = (if net f > m then (f, net f) else (b, m))"
  by (simp add: keepBest_def)

lemma keepBest_max:
  "fold (keepBest net) fs (o0, m0) = (b, m) \<Longrightarrow>
   m0 \<le> m \<and> (\<forall>f \<in> set fs. net f \<le> m)"
proof (induction fs arbitrary: o0 m0)
  case Nil then show ?case by simp
next
  case (Cons x xs)
  show ?case
  proof (cases "net x > m0")
    case True
    with Cons.prems have "fold (keepBest net) xs (x, net x) = (b, m)" by (simp add: keepBest_pair)
    from Cons.IH [OF this] True show ?thesis by auto
  next
    case False
    with Cons.prems have "fold (keepBest net) xs (o0, m0) = (b, m)" by (simp add: keepBest_pair)
    from Cons.IH [OF this] False show ?thesis by auto
  qed
qed

lemma keepBest_first:
  "fold (keepBest net) fs (o0, m0) = (b, m) \<Longrightarrow> sorted_wrt (<) fs \<Longrightarrow>
   (b, m) = (o0, m0) \<or> (b \<in> set fs \<and> m = net b \<and> m0 < m \<and> (\<forall>f \<in> set fs. f < b \<longrightarrow> net f < m))"
proof (induction fs arbitrary: o0 m0)
  case Nil then show ?case by simp
next
  case (Cons x xs)
  from Cons.prems have srt: "sorted_wrt (<) xs" and gt: "\<forall>f \<in> set xs. x < f" by auto
  show ?case
  proof (cases "net x > m0")
    case True
    with Cons.prems have "fold (keepBest net) xs (x, net x) = (b, m)" by (simp add: keepBest_pair)
    from Cons.IH [OF this srt] True gt show ?thesis by force
  next
    case False
    with Cons.prems have "fold (keepBest net) xs (o0, m0) = (b, m)" by (simp add: keepBest_pair)
    from Cons.IH [OF this srt] False gt show ?thesis by force
  qed
qed

subsection \<open>Gas cost against the optimal frequency\<close>

lemma specNetYield_gas:
  "specNetYield apr g P f = specNetYield apr 0 P f - g * real f"
  by (simp add: specNetYield_def)

lemma frequencies_sorted: "sorted_wrt (<) frequencies"
  by (simp add: frequencies_def)

lemma frequencies_pos: "f \<in> set frequencies \<Longrightarrow> 1 \<le> f"
  by (auto simp: frequencies_def)

lemma optimalCompounding_fold:
  "calculateOptimalCompounding apr g P =
     Returns \<lparr>optimalFrequency = fst (fold (keepBest (specNetYield apr g P)) frequencies (1, 0)),
              maxNetYield = snd (fold (keepBest (specNetYield apr g P)) frequencies (1, 0)),
              recommendedStrategy =
                getCompoundingStrategy (fst (fold (keepBest (specNetYield apr g P)) frequencies (1, 0)))\<rparr>"
proof -
  have "0 \<notin> set frequencies" by (simp add: frequencies_def)
  from fold_step_keepBest [OF this] show ?thesis
    by (simp add: calculateOptimalCompounding_def split: prod.splits)
qed

lemma keepBest_gas_mono:
  assumes le: "g2 \<le> g1"
    and r1: "fold (keepBest (specNetYield apr g1 P)) frequencies (1, 0) = (b1, m1)"
    and r2: "fold (keepBest (specNetYield apr g2 P)) frequencies (1, 0) = (b2, m2)"
  shows "b1 \<le> b2"
proof (rule ccontr)
  assume "\<not> b1 \<le> b2"
  then have lt: "b2 < b1" by simp
  let ?Y = "specNetYield apr 0 P"
  note f1 = keepBest_first [OF r1 frequencies_sorted]
  note f2 = keepBest_first [OF r2 frequencies_sorted]
  note x2 = keepBest_max [OF r2]
  have b2_pos: "1 \<le> b2" using f2 frequencies_pos by auto
  with lt have "b1 \<noteq> 1" by simp
  with f1 have in1: "b1 \<in> set frequencies" and m1: "m1 = ?Y b1 - g1 * real b1" and pos1: "0 < m1"
    and before: "\<forall>f \<in> set frequencies. f < b1 \<longrightarrow> ?Y f - g1 * real f < m1"
    using specNetYield_gas [of apr g1 P] by auto
  have "g2 * real b1 \<le> g1 * real b1" using le by (simp add: mult_right_mono)
  with m1 pos1 have pos2: "0 < ?Y b1 - g2 * real b1" by linarith
  from x2 in1 have "?Y b1 - g2 * real b1 \<le> m2" using specNetYield_gas [of apr g2 P] by auto
  with pos2 have "0 < m2" by linarith
  with f2 have in2: "b2 \<in> set frequencies" and m2: "m2 = ?Y b2 - g2 * real b2"
    using specNetYield_gas [of apr g2 P] by auto
  from before in2 lt have a: "?Y b2 - g1 * real b2 < ?Y b1 - g1 * real b1" using m1 by auto
  from \<open>?Y b1 - g2 * real b1 \<le> m2\<close> m2 have b: "?Y b1 - g2 * real b1 \<le> ?Y b2 - g2 * real b2" by simp
  have "0 \<le> (g1 - g2) * (real b1 - real b2)" using le lt by simp
  then have c: "g1 * real b2 + g2 * real b1 \<le> g1 * real b1 + g2 * real b2"
    by (simp add: algebra_simps)
  from a b c show False by linarith
qed

text \<open>
  C4. With \<open>apr\<close> and the principal fixed, a higher gas cost never gives a higher
  optimal frequency: if \<open>gasCost2 \<le> gasCost1\<close> then the frequency returned for
  \<open>gasCost1\<close> is at most the one returned for \<open>gasCost2\<close>. It holds for every \<open>apr\<close>
  and principal, the non-negative and positive ones of the claim among them.
\<close>

theorem optimalFrequency_antimono_gas:
  assumes "gasCost2 \<le> gasCost1"
  shows "\<exists>r1 r2. calculateOptimalCompounding apr gasCost1 P = Returns r1
           \<and> calculateOptimalCompounding apr gasCost2 P = Returns r2
           \<and> optimalFrequency r1 \<le> optimalFrequency r2"
proof -
  obtain b1 m1 where r1: "fold (keepBest (specNetYield apr gasCost1 P)) frequencies (1, 0) = (b1, m1)"
    by (cases "fold (keepBest (specNetYield apr gasCost1 P)) frequencies (1, 0)") auto
  obtain b2 m2 where r2: "fold (keepBest (specNetYield apr gasCost2 P)) frequencies (1, 0) = (b2, m2)"
    by (cases "fold (keepBest (specNetYield apr gasCost2 P)) frequencies (1, 0)") auto
  from keepBest_gas_mono [OF assms r1 r2] have "b1 \<le> b2" .
  with r1 r2 show ?thesis by (simp add: optimalCompounding_fold)
qed

theorem optimalFrequency_antimono_gas_witness:
  "(1 / 10 :: real) \<le> 50 \<and>
   (\<exists>r1 r2. calculateOptimalCompounding 10 50 1000 = Returns r1
           \<and> calculateOptimalCompounding 10 (1 / 10) 1000 = Returns r2
           \<and> optimalFrequency r1 \<le> optimalFrequency r2)"
  using optimalFrequency_antimono_gas [of "1 / 10" 50 10 1000] by simp

subsection \<open>What the compounding search returns\<close>

text \<open>
  When some candidate has a positive net yield, the search returns the earliest
  candidate of the greatest net yield, and that net yield. When none has, it returns
  frequency \<open>1\<close> and a net yield of \<open>0\<close>.
\<close>

lemma optimalCompounding_earliest_best:
  assumes "f0 \<in> set frequencies" and "0 < specNetYield apr g P f0"
  shows "\<exists>r. calculateOptimalCompounding apr g P = Returns r
           \<and> optimalFrequency r \<in> set frequencies
           \<and> maxNetYield r = specNetYield apr g P (optimalFrequency r)
           \<and> (\<forall>f \<in> set frequencies. specNetYield apr g P f \<le> maxNetYield r)
           \<and> (\<forall>f \<in> set frequencies. f < optimalFrequency r \<longrightarrow>
                  specNetYield apr g P f < maxNetYield r)"
proof -
  obtain b m where r: "fold (keepBest (specNetYield apr g P)) frequencies (1, 0) = (b, m)"
    by (cases "fold (keepBest (specNetYield apr g P)) frequencies (1, 0)") auto
  from keepBest_max [OF r] assms have "0 < m" by force
  with keepBest_first [OF r frequencies_sorted] keepBest_max [OF r] r
  show ?thesis by (auto simp: optimalCompounding_fold)
qed

lemma optimalCompounding_none_positive:
  assumes "\<forall>f \<in> set frequencies. specNetYield apr g P f \<le> 0"
  shows "calculateOptimalCompounding apr g P =
           Returns \<lparr>optimalFrequency = 1, maxNetYield = 0,
                    recommendedStrategy = getCompoundingStrategy 1\<rparr>"
proof -
  obtain b m where r: "fold (keepBest (specNetYield apr g P)) frequencies (1, 0) = (b, m)"
    by (cases "fold (keepBest (specNetYield apr g P)) frequencies (1, 0)") auto
  from keepBest_first [OF r frequencies_sorted] assms have "(b, m) = (1, 0)" by force
  with r show ?thesis by (simp add: optimalCompounding_fold)
qed

subsection \<open>A search in which no candidate has a positive net yield\<close>

lemma net_500_1: "specNetYield 500 620 100 1 = - 120"
  by (simp add: specNetYield_def)

lemma net_500_4: "specNetYield 500 620 100 4 = - (1095 / 64)"
  by (simp add: specNetYield_def power_divide)

lemma pow_12: "((17::real) / 12) ^ 12 \<le> 70"
  by (simp add: power_divide)

lemma net_500_12: "specNetYield 500 620 100 12 \<le> 0"
proof -
  have "(1 + 500 / 100 / real 12 :: real) = 17 / 12" by simp
  with pow_12 show ?thesis by (simp add: specNetYield_def)
qed

lemma pow_52: "((57::real) / 52) ^ 52 \<le> 256"
proof -
  have a: "((57::real) / 52) ^ 13 \<le> 4" by (simp add: power_divide)
  have "((57::real) / 52) ^ (13 * 4) = (((57::real) / 52) ^ 13) ^ 4" by (rule power_mult)
  also have "\<dots> \<le> 4 ^ 4" using a by (intro power_mono) simp_all
  finally show ?thesis by simp
qed

lemma net_500_52: "specNetYield 500 620 100 52 \<le> 0"
proof -
  have "(1 + 500 / 100 / real 52 :: real) = 57 / 52" by simp
  with pow_52 show ?thesis by (simp add: specNetYield_def)
qed

lemma pow_365: "((74::real) / 73) ^ 365 \<le> 243"
proof -
  have a: "((74::real) / 73) ^ 73 \<le> 3" by (simp add: power_divide)
  have "((74::real) / 73) ^ (73 * 5) = (((74::real) / 73) ^ 73) ^ 5" by (rule power_mult)
  also have "\<dots> \<le> 3 ^ 5" using a by (intro power_mono) simp_all
  finally show ?thesis by simp
qed

lemma net_500_365: "specNetYield 500 620 100 365 \<le> 0"
proof -
  have "(1 + 500 / 100 / real 365 :: real) = 74 / 73" by simp
  with pow_365 show ?thesis by (simp add: specNetYield_def)
qed

text \<open>
  C3. The claim has the search return the candidate with the greatest net yield. The
  running maximum starts at \<open>0\<close> with frequency \<open>1\<close>, so a candidate is taken only
  when its net yield is positive. For \<open>apr = 500\<close>, \<open>gasCost = 620\<close> and principal
  \<open>100\<close> every candidate has a net yield of at most \<open>0\<close>: the search returns
  frequency \<open>1\<close> with \<open>maxNetYield = 0\<close>, although frequency \<open>4\<close> has the greater
  net yield (\<open>- 1095 / 64\<close> against \<open>- 120\<close>).
\<close>

theorem optimalCompounding_all_nonpositive:
  "calculateOptimalCompounding 500 620 100 =
     Returns \<lparr>optimalFrequency = 1, maxNetYield = 0,
              recommendedStrategy = ''Annual compounding - Low gas, lower yield''\<rparr>
   \<and> specNetYield 500 620 100 1 < specNetYield 500 620 100 4"
proof -
  have "fold (keepBest (specNetYield 500 620 100)) frequencies (1, 0) = (1, 0)"
    using net_500_1 net_500_4 net_500_12 net_500_52 net_500_365
    by (simp add: frequencies_def keepBest_pair)
  then show ?thesis
    using net_500_1 net_500_4
    by (simp add: optimalCompounding_fold getCompoundingStrategy_def)
qed

subsection \<open>APY of a negative rate\<close>

text \<open>
  C7. The claim has \<open>calculateAPY\<close> raise a validation error for a negative \<open>apr\<close>.
  For \<open>apr = - 5\<close> and frequency \<open>365\<close> it raises nothing: it returns a value, and
  the value is negative.
\<close>

theorem calculateAPY_negative_returns:
  "\<exists>v. calculateAPY (- 5) 365 = Returns v \<and> v < 0"
proof -
  have "((- 5) / 100 / real 365 + 1 :: real) = 7299 / 7300" by simp
  moreover have "((7299::real) / 7300) ^ Suc 364 < 1"
    by (rule power_Suc_less_one) simp_all
  moreover have "Suc 364 = 365" by simp
  ultimately show ?thesis by (simp add: calculateAPY_def)
qed

subsection \<open>Value at Risk of an empty portfolio\<close>

text \<open>
  The claim C8 has the call on an empty portfolio raise a validation error. It does
  not.
\<close>

theorem calculateVaR_empty_counterexample:
  "calculateVaR \<lparr>positions = Some []\<rparr> (95 / 100) 1 \<noteq> Throws ValidationError"
  by (simp add: calculateVaR_def)

text \<open>
  C8, amended. On a portfolio without positions (an empty list, or no list at all)
  and a time horizon that is not negative, \<open>calculateVaR\<close> raises nothing: it returns
  a total value, volatility, daily and period VaR of \<open>0\<close> and the risk level
  \<open>Low\<close>.
\<close>

theorem calculateVaR_empty:
  assumes "0 \<le> horizon" and "positions pf = Some [] \<or> positions pf = None"
  shows "calculateVaR pf confidence horizon =
           Returns \<lparr>totalValue = 0, portfolioVolatility = 0, dailyVaR = 0, periodVaR = 0,
                    riskLevel = Low\<rparr>"
  using assms by (auto simp: calculateVaR_def toFixed_zero)

theorem calculateVaR_empty_witness:
  "(0::real) \<le> 1
   \<and> (positions \<lparr>positions = Some []\<rparr> = Some [] \<or> positions \<lparr>positions = Some []\<rparr> = None)
   \<and> calculateVaR \<lparr>positions = Some []\<rparr> (95 / 100) 1 =
           Returns \<lparr>totalValue = 0, portfolioVolatility = 0, dailyVaR = 0, periodVaR = 0,
                    riskLevel = Low\<rparr>"
  using calculateVaR_empty [of 1 "\<lparr>positions = Some []\<rparr>" "95 / 100"] by simp

subsection \<open>Portfolio variance\<close>

text \<open>
  C2. The claim takes every weight against the total value of the portfolio. The
  first loop takes it against the value added up so far, so the first position always
  has weight \<open>1\<close> there. For two positions of value \<open>1\<close> each, ETH and BTC, both of
  volatility \<open>0.3\<close>, the code's variance is \<open>0.09 + 0.0225 + 0.0315 = 0.144\<close>, the
  claim's is \<open>0.0225 + 0.0225 + 0.0315 = 0.0765\<close>.
\<close>

theorem portfolioVariance_running_weight:
  "portfolioVariance
     [\<lparr>asset = ''ETH'', amount = 1, price = 1, volatility = Some (3 / 10)\<rparr>,
      \<lparr>asset = ''BTC'', amount = 1, price = 1, volatility = Some (3 / 10)\<rparr>]
     = Some (144 / 1000)
   \<and> specVariance
     [\<lparr>asset = ''ETH'', amount = 1, price = 1, volatility = Some (3 / 10)\<rparr>,
      \<lparr>asset = ''BTC'', amount = 1, price = 1, volatility = Some (3 / 10)\<rparr>]
     = 765 / 10000"
  by (simp add: portfolioVariance_def specVariance_def varianceStep_def
      orDefault_def orElse_def getAssetCorrelation_def correlations_def power2_eq_square)

subsection \<open>Impermanent loss of an unchanged and of an inverted ratio\<close>





subsection \<open>The constant product of the re-derived pool\<close>





subsection \<open>What the optimizer writes into the store\<close>

lemma scored_fields:
  "name (scored s) = name s" "apy (scored s) = apy s" "risk (scored s) = risk s"
  "liquidity (scored s) = liquidity s"
  by (simp_all add: scored_def Let_def)

lemma scored_idem: "scored (scored s) = scored s"
  by (simp add: scored_def Let_def)

lemma scoreStep_apply:
  "scoreStep b h a = (if a = b then scored (h b) else h a)"
  by (simp add: scoreStep_def)

lemma fold_scoreStep:
  "fold scoreStep as h a = (if a \<in> set as then scored (h a) else h a)"
proof (induction as arbitrary: h)
  case Nil
  show ?case by simp
next
  case (Cons b as)
  have "fold scoreStep (b # as) h a = fold scoreStep as (scoreStep b h) a" by simp
  also have "\<dots> = (if a \<in> set as then scored (scoreStep b h a) else scoreStep b h a)"
    by (rule Cons.IH)
  also have "\<dots> = (if a \<in> set (b # as) then scored (h a) else h a)"
    by (simp add: scoreStep_apply scored_idem)
  finally show ?case .
qed

lemma optimize_store:
  "fst (optimizeYieldStrategy h strategies cs) a =
     (if a \<in> set strategies \<and> meetsConstraints cs (h a) then scored (h a) else h a)"
proof (cases "filter (\<lambda>a. meetsConstraints cs (h a)) strategies = []")
  case True
  then have "\<not> (a \<in> set strategies \<and> meetsConstraints cs (h a))"
    by (auto simp: filter_empty_conv)
  with True show ?thesis by (auto simp: optimizeYieldStrategy_def)
next
  case False
  then show ?thesis
    by (simp add: optimizeYieldStrategy_def Let_def fold_scoreStep split: prod.splits)
qed

text \<open>
  The claim C9 has every input strategy unchanged when the optimizer returns. Strategy A
  of the example passes the filter and has a score afterwards (\<open>12 / 0.2 * 1.8 = 108\<close>)
  that it did not have before.
\<close>

theorem optimizer_writes_score_counterexample:
  "score (fst (optimizeYieldStrategy exampleStore [0, 1, 2] exampleConstraints) 0) = Some 108
   \<and> score (exampleStore 0) = None"
  by (simp add: optimize_store exampleStore_def exampleConstraints_def meetsConstraints_def
      minYieldOf_def maxRiskOf_def scored_def orDefault_def)

text \<open>
  C9, amended. When the optimizer returns, a strategy that is in the array and passes
  the filter has the fields \<open>riskAdjustedReturn\<close> and \<open>score\<close> set (added or
  overwritten) and is otherwise as before; every other strategy is unchanged. In
  particular the name, APY, risk and liquidity of every strategy are unchanged.
\<close>

theorem optimizer_store_effect:
  "fst (optimizeYieldStrategy h strategies cs) a =
     (if a \<in> set strategies \<and> meetsConstraints cs (h a) then scored (h a) else h a)
   \<and> name (fst (optimizeYieldStrategy h strategies cs) a) = name (h a)
   \<and> apy (fst (optimizeYieldStrategy h strategies cs) a) = apy (h a)
   \<and> risk (fst (optimizeYieldStrategy h strategies cs) a) = risk (h a)
   \<and> liquidity (fst (optimizeYieldStrategy h strategies cs) a) = liquidity (h a)"
  by (simp add: optimize_store scored_fields)

subsection \<open>Risk and total of the allocations\<close>





text \<open>
  The run behind the witness: strategy C has the higher score and is served first;
  each gets 30 percent of the capital that is left.
\<close>

lemma optimizer_example:
  "allocationsOf (snd (optimizeYieldStrategy exampleStore [0, 1, 2] exampleConstraints))
   = [\<lparr>strategyName = ''Strategy C'', allocation = 30000, percentage = 30,
       expectedReturn = 2400, allocRisk = 1 / 10, allocApy = 8\<rparr>,
      \<lparr>strategyName = ''Strategy A'', allocation = 21000, percentage = 21,
       expectedReturn = 2520, allocRisk = 2 / 10, allocApy = 12\<rparr>]"
  by (simp add: optimizeYieldStrategy_def Let_def meetsConstraints_def minYieldOf_def
      maxRiskOf_def totalCapitalOf_def maxAllocationPerStrategyOf_def scoreStep_def scored_def
      sortByScore_def readScore_def orDefault_def toFixed_def exampleStore_def
      exampleConstraints_def)

end
